theory Spec2Isabelle
  imports Complex_Main
begin

section \<open>SkySphere: data model\<close>

text \<open>
  The embedding follows \<^verbatim>\<open>src/SkySphere.js\<close>. JavaScript numbers are modelled as
  real numbers: every arithmetic operation of the source is the exact operation on
  \<^typ>\<open>real\<close>. Rounding of IEEE doubles is not modelled, so no statement below is about
  the last bits of a result: the statements are about which formula is computed, about
  signs and comparisons, about the structure of the state and about exceptions. A
  division by zero, whose JavaScript value is \<^verbatim>\<open>Infinity\<close> or \<^verbatim>\<open>NaN\<close>, is an
  explicit \<open>NotFinite\<close> outcome.

  The canvas, the DOM events and the frame scheduler (\<^verbatim>\<open>step\<close>, \<^verbatim>\<open>nextFrame\<close>)
  are external: the handlers take the event's numbers as arguments, and what is drawn is
  not part of the state. \<^verbatim>\<open>setContainerSize\<close> is not needed by the statements below
  and is left out, and so is \<^verbatim>\<open>absoluteZoom\<close>, whose point is the exact value of a
  quotient and a product in double arithmetic.

  Sky points are JavaScript objects that are mutated in place and shared by reference
  (the caller of \<^verbatim>\<open>addCustomObject\<close> keeps the very object that the collection
  holds), so they live in an explicit store: an address is an index into \<open>heap\<close>, and
  allocation appends a cell.
\<close>

datatype error = TypeError | NotFinite

type_synonym addr = nat

text \<open>
  The optional \<^verbatim>\<open>data\<close> object of a custom point. The source reads its properties
  \<^verbatim>\<open>color\<close>, \<^verbatim>\<open>radius\<close> and \<^verbatim>\<open>clickData\<close>; a property that is
  \<^verbatim>\<open>undefined\<close> is \<open>None\<close>.
\<close>

record pointData =
  color :: "string option"
  data_radius :: "real option"
  clickData :: "string option"

text \<open>
  A sky point \<^verbatim>\<open>{x, y, z, data?}\<close>. The fields carry the prefix \<open>pt_\<close> so that
  \<open>x\<close>, \<open>y\<close> and \<open>z\<close> stay available as variable names. \<open>pt_data = None\<close> is a
  point object without a \<^verbatim>\<open>data\<close> property.
\<close>

record skyPoint =
  pt_x :: real
  pt_y :: real
  pt_z :: real
  pt_data :: "pointData option"

record starLine =
  skyPoint1 :: addr
  skyPoint2 :: addr

text \<open>
  The \<^verbatim>\<open>options\<close> object given to the constructor. \<open>opt_customOnClick\<close> tells
  whether a click callback was supplied; the callback itself is external, and a call of it
  is reported as an outcome of \<open>stopMove\<close> below.
\<close>

record options =
  opt_width :: "real option"
  opt_height :: "real option"
  opt_initialRadius :: "real option"
  opt_backgroundColor :: "string option"
  opt_customOnClick :: bool

text \<open>
  The own properties of one \<^verbatim>\<open>SkySphere\<close> object, together with the variables of the
  closure that \<^verbatim>\<open>init\<close> creates for its event handlers (\<open>startX\<close>, \<open>startY\<close>,
  \<open>prevX\<close>, \<open>prevY\<close>, and the tap position relative to the canvas, \<^verbatim>\<open>x\<close> and
  \<^verbatim>\<open>y\<close> in the source, here \<open>tapX\<close> and \<open>tapY\<close>). \<open>listening\<close> tells whether
  \<^verbatim>\<open>onMove\<close> and \<^verbatim>\<open>stopMove\<close> are currently registered on the window.
  \<open>zoomFactor\<close> and \<open>isMoving\<close> start at the prototype's values \<open>1\<close> and \<open>False\<close>
  and become own properties at their first assignment; the prototype's scalars are never
  assigned, so one field per instance models the lookup.
\<close>

record skySphere =
  options :: options
  containerWidth :: real
  containerHeight :: real
  radius :: real
  initialRadius :: real
  zoomFactor :: real
  isMoving :: bool
  listening :: bool
  startX :: real
  startY :: real
  prevX :: real
  prevY :: real
  tapX :: real
  tapY :: real

text \<open>
  The state of the module. \<open>starLines\<close>, \<open>starPoints\<close> and \<open>objectPoints\<close> are the
  three array objects created once by
  \<^verbatim>\<open>SkySphere.prototype.starLines = []\<close>, \<^verbatim>\<open>SkySphere.prototype.starPoints = []\<close>
  and \<^verbatim>\<open>SkySphere.prototype.objectPoints = []\<close>. No statement of the source assigns
  \<^verbatim>\<open>this.starLines\<close>, \<^verbatim>\<open>this.starPoints\<close> or \<^verbatim>\<open>this.objectPoints\<close>:
  every read of these properties on an instance goes through the prototype chain to these
  arrays, and every \<^verbatim>\<open>push\<close> mutates them. \<open>instances\<close> is the module's
  registry \<^verbatim>\<open>var instances = []\<close>; an instance is named by its index there.
  \<open>supportTouch\<close> is \<^verbatim>\<open>'ontouchstart' in window\<close>.
\<close>

record world =
  heap :: "skyPoint list"
  starLines :: "starLine list"
  starPoints :: "addr list"
  objectPoints :: "addr list"
  instances :: "skySphere list"
  supportTouch :: bool

section \<open>Coordinate conversion\<close>

definition dec2rad :: "real \<Rightarrow> real" where
  "dec2rad dec = (dec + 90) * 2 * pi / 360"

definition ra2rad :: "real \<Rightarrow> real" where
  "ra2rad ra = ra * 2 * pi / 24"

text \<open>Size of the sensitive area around a sky point that detects clicks.\<close>

definition area :: "world \<Rightarrow> real" where
  "area w = (if supportTouch w then 15 else 6)"

section \<open>Projection\<close>

text \<open>
  \<^verbatim>\<open>generateSkyPoint\<close> builds a fresh object from the instance's radius and container
  size; \<open>data = None\<close> is a call without the third argument.
\<close>

definition generateSkyPoint :: "skySphere \<Rightarrow> real \<Rightarrow> real \<Rightarrow> pointData option \<Rightarrow> skyPoint" where
  "generateSkyPoint this ra dec data =
     (let skyPoint = \<lparr> pt_x = radius this * sin dec * cos ra + containerWidth this / 2,
                       pt_y = - radius this * sin dec * sin ra + containerHeight this / 2,
                       pt_z = radius this * cos dec,
                       pt_data = None \<rparr>
      in if data \<noteq> None then skyPoint\<lparr> pt_data := data \<rparr> else skyPoint)"

text \<open>The viewport center, \<^verbatim>\<open>this.containerWidth / 2\<close> and \<^verbatim>\<open>this.containerHeight / 2\<close>.\<close>

definition centerX :: "skySphere \<Rightarrow> real" where
  "centerX this = containerWidth this / 2"

definition centerY :: "skySphere \<Rightarrow> real" where
  "centerY this = containerHeight this / 2"

section \<open>Construction\<close>

text \<open>Allocation of a fresh object: the new address is the next free index of the store.\<close>

definition alloc :: "skyPoint \<Rightarrow> world \<Rightarrow> addr \<times> world" where
  "alloc p w = (length (heap w), w\<lparr> heap := heap w @ [p] \<rparr>)"

text \<open>
  JavaScript's \<^verbatim>\<open>v || d\<close> on an optional number: \<^verbatim>\<open>undefined\<close> and \<open>0\<close> are
  falsy and give the default.
\<close>

definition or_default :: "real option \<Rightarrow> real \<Rightarrow> real" where
  "or_default v d = (case v of None \<Rightarrow> d | Some r \<Rightarrow> if r = 0 then d else r)"

text \<open>
  The catalogue module \<^verbatim>\<open>constellations\<close> is not part of the sources; it is a
  parameter of the constructor: \<open>cat_l\<close> is \<^verbatim>\<open>constellations.l\<close>, the pairs of star
  indices, and \<open>cat_s\<close> is \<^verbatim>\<open>constellations.s\<close>, the pairs of angles.
\<close>

record constellations =
  cat_l :: "(nat \<times> nat) list"
  cat_s :: "(real \<times> real) list"

text \<open>
  The first loop of \<^verbatim>\<open>init\<close>. \<^verbatim>\<open>stars[k]\<close> with \<open>k\<close> out of range is
  \<^verbatim>\<open>undefined\<close>, and reading \<^verbatim>\<open>star[0]\<close> then throws; the exception leaves the
  pushes already made in place.
\<close>

fun init_lines :: "skySphere \<Rightarrow> (real \<times> real) list \<Rightarrow> (nat \<times> nat) list \<Rightarrow> world
    \<Rightarrow> (error \<times> world) + world" where
  "init_lines this stars [] w = Inr w"
| "init_lines this stars (line # rest) w =
     (if fst line < length stars then
        (let star = stars ! fst line;
             (skyPoint1, w1) = alloc (generateSkyPoint this (fst star) (snd star) None) w
         in if snd line < length stars then
              (let star = stars ! snd line;
                   (skyPoint2, w2) = alloc (generateSkyPoint this (fst star) (snd star) None) w1
               in init_lines this stars rest
                    (w2\<lparr> starLines := starLines w2
                           @ [\<lparr> skyPoint1 = skyPoint1, skyPoint2 = skyPoint2 \<rparr>] \<rparr>))
            else Inl (TypeError, w1))
      else Inl (TypeError, w))"

text \<open>The second loop of \<^verbatim>\<open>init\<close>.\<close>

fun init_stars :: "skySphere \<Rightarrow> (real \<times> real) list \<Rightarrow> world \<Rightarrow> world" where
  "init_stars this [] w = w"
| "init_stars this (star # rest) w =
     (let (skyPoint, w1) = alloc (generateSkyPoint this (fst star) (snd star) None) w
      in init_stars this rest (w1\<lparr> starPoints := starPoints w1 @ [skyPoint] \<rparr>))"

text \<open>
  \<^verbatim>\<open>init\<close>: the canvas element and its 2d context are external and taken to exist.
  The result is the new object and the state after the pushes.
\<close>

definition init :: "options \<Rightarrow> constellations \<Rightarrow> world \<Rightarrow> (error \<times> world) + (skySphere \<times> world)" where
  "init opts constellations w =
     (let cw = or_default (opt_width opts) 400;
          ch = or_default (opt_height opts) cw;
          r = or_default (opt_initialRadius opts) (min cw ch * 0.45);
          this = \<lparr> options = opts, containerWidth = cw, containerHeight = ch,
                   radius = r, initialRadius = r, zoomFactor = 1, isMoving = False,
                   listening = False, startX = 0, startY = 0, prevX = 0, prevY = 0,
                   tapX = 0, tapY = 0 \<rparr>
      in case init_lines this (cat_s constellations) (cat_l constellations) w of
           Inl e \<Rightarrow> Inl e
         | Inr w1 \<Rightarrow> Inr (this, init_stars this (cat_s constellations) w1))"

text \<open>
  The constructor \<^verbatim>\<open>new SkySphere(elementId, options)\<close>: \<^verbatim>\<open>init\<close>, then
  \<^verbatim>\<open>instances.push(this)\<close>. It returns the index of the new instance.
\<close>

definition SkySphere :: "options \<Rightarrow> constellations \<Rightarrow> world \<Rightarrow> (error \<times> world) + (nat \<times> world)" where
  "SkySphere opts constellations w =
     (case init opts constellations w of
        Inl e \<Rightarrow> Inl e
      | Inr (this, w1) \<Rightarrow>
          Inr (length (instances w1), w1\<lparr> instances := instances w1 @ [this] \<rparr>))"

text \<open>The state of the module before any instance is constructed.\<close>

definition world0 :: "bool \<Rightarrow> world" where
  "world0 touch = \<lparr> heap = [], starLines = [], starPoints = [], objectPoints = [],
                    instances = [], supportTouch = touch \<rparr>"

section \<open>Transform engine, rotation and zoom\<close>

text \<open>One call \<^verbatim>\<open>transform(p)\<close> on the object at address \<open>a\<close>: the object is mutated in place.\<close>

definition transform_at :: "(skyPoint \<Rightarrow> skyPoint) \<Rightarrow> addr \<Rightarrow> skyPoint list \<Rightarrow> skyPoint list" where
  "transform_at transform a h = h[a := transform (h ! a)]"

text \<open>\<^verbatim>\<open>applyTransform\<close>: the three loops, in the source's order.\<close>

definition applyTransform :: "(skyPoint \<Rightarrow> skyPoint) \<Rightarrow> world \<Rightarrow> world" where
  "applyTransform transform w =
     (let h1 = fold (\<lambda>starLine h. transform_at transform (skyPoint2 starLine)
                                    (transform_at transform (skyPoint1 starLine) h))
                    (starLines w) (heap w);
          h2 = fold (transform_at transform) (starPoints w) h1;
          h3 = fold (transform_at transform) (objectPoints w) h2
      in w\<lparr> heap := h3 \<rparr>)"

text \<open>
  The closure that \<^verbatim>\<open>rotateXY(dy, dx)\<close> hands to \<^verbatim>\<open>applyTransform\<close>. The first
  parameter of \<^verbatim>\<open>rotateXY\<close> is called \<^verbatim>\<open>dy\<close> and the second \<^verbatim>\<open>dx\<close>, as in
  the source. \<open>cX\<close> and \<open>cY\<close> are the captured \<^verbatim>\<open>centerX\<close> and \<^verbatim>\<open>centerY\<close>.
  The three assignments read the locals \<^verbatim>\<open>x\<close>, \<^verbatim>\<open>y\<close> and the old
  \<^verbatim>\<open>skyPoint.z\<close>, which is overwritten last.
\<close>

definition rotatePoint :: "real \<Rightarrow> real \<Rightarrow> real \<Rightarrow> real \<Rightarrow> skyPoint \<Rightarrow> skyPoint" where
  "rotatePoint dy dx cX cY skyPoint =
     (let sindx = sin dx; cosdx = cos dx; sindy = sin dy; cosdy = cos dy;
          my1 = sindx * sindy; my3 = sindx * cosdy;
          mz1 = cosdx * sindy; mz3 = cosdx * cosdy;
          x = pt_x skyPoint - cX;
          y = - pt_y skyPoint + cY
      in skyPoint\<lparr> pt_x := x * cosdy + pt_z skyPoint * sindy + cX,
                    pt_y := - x * my1 - y * cosdx + pt_z skyPoint * my3 + cY,
                    pt_z := - x * mz1 + y * sindx + pt_z skyPoint * mz3 \<rparr>)"

definition rotateXY :: "real \<Rightarrow> real \<Rightarrow> nat \<Rightarrow> world \<Rightarrow> world" where
  "rotateXY dy dx i w =
     (let this = instances w ! i
      in applyTransform (rotatePoint dy dx (centerX this) (centerY this)) w)"

text \<open>
  \<^verbatim>\<open>drawSky\<close>: the canvas is external and write-only, so only the control flow that
  depends on the state is kept. The loop over the custom objects reads
  \<^verbatim>\<open>skyPoint.data.color\<close> for every object with \<open>z \<ge> 0\<close>, which throws when the
  object has no \<^verbatim>\<open>data\<close>.
\<close>

fun draw_objects :: "skyPoint list \<Rightarrow> addr list \<Rightarrow> error + unit" where
  "draw_objects h [] = Inr ()"
| "draw_objects h (a # rest) =
     (let skyPoint = h ! a
      in if pt_z skyPoint \<ge> 0 then
           (case pt_data skyPoint of
              None \<Rightarrow> Inl TypeError
            | Some d \<Rightarrow> draw_objects h rest)
         else draw_objects h rest)"

definition drawSky :: "nat \<Rightarrow> world \<Rightarrow> error + unit" where
  "drawSky i w = draw_objects (heap w) (objectPoints w)"

text \<open>The closure of \<^verbatim>\<open>zoom\<close>, acting on one point.\<close>

definition zoomPoint :: "real \<Rightarrow> real \<Rightarrow> real \<Rightarrow> skyPoint \<Rightarrow> skyPoint" where
  "zoomPoint zf cX cY skyPoint =
     skyPoint\<lparr> pt_x := zf * (pt_x skyPoint - cX) + cX,
               pt_y := zf * (pt_y skyPoint - cY) + cY,
               pt_z := zf * pt_z skyPoint \<rparr>"

text \<open>
  \<^verbatim>\<open>zoom\<close>: the state changes, without the final \<^verbatim>\<open>drawSky\<close>. The closure also
  assigns \<^verbatim>\<open>self.zoomFactor\<close>, so the factor is recorded only when the closure runs at
  least once.
\<close>

definition zoom_state :: "real \<Rightarrow> nat \<Rightarrow> world \<Rightarrow> world" where
  "zoom_state zf i w =
     (let this = (instances w ! i)\<lparr> radius := radius (instances w ! i) * zf \<rparr>;
          w1 = applyTransform (zoomPoint zf (centerX this) (centerY this)) w;
          visited = (starLines w \<noteq> [] \<or> starPoints w \<noteq> [] \<or> objectPoints w \<noteq> []);
          this1 = (if visited then this\<lparr> zoomFactor := zf \<rparr> else this)
      in w1\<lparr> instances := (instances w1)[i := this1] \<rparr>)"

text \<open>
  \<^verbatim>\<open>zoom\<close>. An exception of the final \<^verbatim>\<open>drawSky\<close> reaches the caller after the
  state has changed: \<open>Inl (e, w')\<close> carries the state the exception leaves behind.
\<close>

definition zoom :: "real \<Rightarrow> nat \<Rightarrow> world \<Rightarrow> (error \<times> world) + world" where
  "zoom zf i w =
     (let w1 = zoom_state zf i w
      in case drawSky i w1 of Inl e \<Rightarrow> Inl (e, w1) | Inr u \<Rightarrow> Inr w1)"

text \<open>The state an operation leaves behind, whether it returned or threw.\<close>

definition state_after :: "(error \<times> world) + world \<Rightarrow> world" where
  "state_after r = (case r of Inl ew \<Rightarrow> snd ew | Inr w \<Rightarrow> w)"

section \<open>Custom objects\<close>

text \<open>\<^verbatim>\<open>addCustomObject\<close> returns the address of the object it pushed.\<close>

definition addCustomObject :: "real \<Rightarrow> real \<Rightarrow> pointData option \<Rightarrow> nat \<Rightarrow> world \<Rightarrow> addr \<times> world" where
  "addCustomObject ra dec data i w =
     (let (skyPoint, w1) = alloc (generateSkyPoint (instances w ! i) (ra2rad ra) (dec2rad dec) data) w
      in (skyPoint, w1\<lparr> objectPoints := objectPoints w1 @ [skyPoint] \<rparr>))"

section \<open>Pointer input and the hit test\<close>

text \<open>
  \<^verbatim>\<open>startMove\<close>: \<open>clientX\<close>, \<open>clientY\<close> are the event's coordinates and
  \<open>rectLeft\<close>, \<open>rectTop\<close> the origin of the canvas rectangle. Frame scheduling (\<^verbatim>\<open>nextFrame\<close>) only
  triggers redraws and is left out.
\<close>

definition startMove :: "real \<Rightarrow> real \<Rightarrow> real \<Rightarrow> real \<Rightarrow> nat \<Rightarrow> world \<Rightarrow> world" where
  "startMove clientX clientY rectLeft rectTop i w =
     w\<lparr> instances := (instances w)[i := (instances w ! i)
          \<lparr> isMoving := True, listening := True,
            startX := clientX, startY := clientY, prevX := clientX, prevY := clientY,
            tapX := clientX - rectLeft, tapY := clientY - rectTop \<rparr>] \<rparr>"

text \<open>
  \<^verbatim>\<open>onMove\<close> runs only while it is registered. It divides by the current radius; with
  a radius of \<open>0\<close> the angles are \<^verbatim>\<open>Infinity\<close> or \<^verbatim>\<open>NaN\<close> and the code goes on
  to write \<^verbatim>\<open>NaN\<close> into every coordinate, a state that the store of reals cannot
  hold: the outcome is \<open>NotFinite\<close>, and the state it carries is the one before the call.
\<close>

definition onMove :: "real \<Rightarrow> real \<Rightarrow> nat \<Rightarrow> world \<Rightarrow> (error \<times> world) + world" where
  "onMove clientX clientY i w =
     (let self = instances w ! i
      in if \<not> listening self then Inr w
         else if radius self = 0 then Inl (NotFinite, w)
         else (let w1 = rotateXY ((clientX - prevX self) / radius self)
                                 ((clientY - prevY self) / radius self) i w
               in Inr (w1\<lparr> instances := (instances w1)[i := (instances w1 ! i)
                            \<lparr> prevX := clientX, prevY := clientY \<rparr>] \<rparr>)))"

text \<open>What a tap reports: no call of \<^verbatim>\<open>customOnClick\<close>, or a call with the given argument.\<close>

datatype click = NoClick | Click "string option"

text \<open>
  The loop of \<^verbatim>\<open>stopMove\<close> over \<^verbatim>\<open>self.objectPoints\<close>. \<open>tolerance\<close> is the value of
  the module variable \<^verbatim>\<open>area\<close>, and \<open>x\<close>, \<open>y\<close> the tap position. At the first object
  that passes the test, \<^verbatim>\<open>skyPoint.data.clickData\<close> is read, which throws when the object
  has no \<^verbatim>\<open>data\<close>, and the loop returns.
\<close>

fun hitScan :: "real \<Rightarrow> real \<Rightarrow> real \<Rightarrow> skyPoint list \<Rightarrow> addr list \<Rightarrow> error + click" where
  "hitScan tolerance x y h [] = Inr NoClick"
| "hitScan tolerance x y h (a # rest) =
     (let skyPoint = h ! a
      in if \<bar>pt_x skyPoint - x\<bar> < tolerance \<and> \<bar>pt_y skyPoint - y\<bar> < tolerance
            \<and> pt_z skyPoint \<ge> 0 then
           (case pt_data skyPoint of
              None \<Rightarrow> Inl TypeError
            | Some d \<Rightarrow> Inr (Click (clickData d)))
         else hitScan tolerance x y h rest)"

text \<open>
  \<^verbatim>\<open>stopMove\<close> runs only while it is registered; it clears \<^verbatim>\<open>isMoving\<close>,
  unregisters the two handlers and, after a gesture without displacement and with a
  \<^verbatim>\<open>customOnClick\<close> option, runs the loop.
\<close>

definition stopMove :: "nat \<Rightarrow> world \<Rightarrow> (error \<times> world) + (click \<times> world)" where
  "stopMove i w =
     (let self = instances w ! i
      in if \<not> listening self then Inr (NoClick, w)
         else (let w1 = w\<lparr> instances := (instances w)[i := self
                              \<lparr> isMoving := False, listening := False \<rparr>] \<rparr>
               in if prevX self = startX self \<and> prevY self = startY self
                     \<and> opt_customOnClick (options self) then
                    (case hitScan (area w) (tapX self) (tapY self) (heap w1) (objectPoints w1) of
                       Inl e \<Rightarrow> Inl (e, w1)
                     | Inr c \<Rightarrow> Inr (c, w1))
                  else Inr (NoClick, w1)))"

section \<open>Centering animation\<close>




section \<open>Well-formed states\<close>

text \<open>
  The addresses held by the three collections, in the order in which
  \<open>applyTransform\<close> visits them.
\<close>

definition tracked :: "world \<Rightarrow> addr list" where
  "tracked w = concat (map (\<lambda>starLine. [skyPoint1 starLine, skyPoint2 starLine]) (starLines w))
               @ starPoints w @ objectPoints w"

text \<open>
  In a state built by the constructor and \<open>addCustomObject\<close>, every address held by a
  collection is allocated, and no object is held twice: each slot holds an object created
  for it.
\<close>

definition wf_world :: "world \<Rightarrow> bool" where
  "wf_world w = (list_all (\<lambda>a. a < length (heap w)) (tracked w) \<and> distinct (tracked w))"

section \<open>Quantities and sequences used in the statements\<close>

text \<open>The squared distance of a point from the viewport center \<open>(cX, cY, 0)\<close>.\<close>

definition norm2 :: "real \<Rightarrow> real \<Rightarrow> skyPoint \<Rightarrow> real" where
  "norm2 cX cY p = (pt_x p - cX)\<^sup>2 + (pt_y p - cY)\<^sup>2 + (pt_z p)\<^sup>2"

text \<open>A finite sequence of \<^verbatim>\<open>rotateXY\<close> calls on one instance, each with its two angles.\<close>

fun rotateXY_seq :: "(real \<times> real) list \<Rightarrow> nat \<Rightarrow> world \<Rightarrow> world" where
  "rotateXY_seq [] i w = w"
| "rotateXY_seq (r # rs) i w = rotateXY_seq rs i (rotateXY (fst r) (snd r) i w)"

text \<open>The test that the loop of \<^verbatim>\<open>stopMove\<close> applies to one object.\<close>

definition hit :: "real \<Rightarrow> real \<Rightarrow> real \<Rightarrow> skyPoint \<Rightarrow> bool" where
  "hit tolerance x y skyPoint =
     (\<bar>pt_x skyPoint - x\<bar> < tolerance \<and> \<bar>pt_y skyPoint - y\<bar> < tolerance \<and> pt_z skyPoint \<ge> 0)"

text \<open>The exception an operation throws, if any.\<close>

definition thrown :: "(error \<times> world) + 'a \<Rightarrow> error option" where
  "thrown r = (case r of Inl ew \<Rightarrow> Some (fst ew) | Inr v \<Rightarrow> None)"

text \<open>
  The collections as one instance sees them: \<^verbatim>\<open>this.starLines\<close>,
  \<^verbatim>\<open>this.starPoints\<close> and \<^verbatim>\<open>this.objectPoints\<close> on instance \<open>i\<close>. The instance
  has no own property of these names, so the lookup ends at the prototype's array whatever
  \<open>i\<close> is.
\<close>

definition this_starLines :: "nat \<Rightarrow> world \<Rightarrow> starLine list" where
  "this_starLines i w = starLines w"

definition this_starPoints :: "nat \<Rightarrow> world \<Rightarrow> addr list" where
  "this_starPoints i w = starPoints w"

definition this_objectPoints :: "nat \<Rightarrow> world \<Rightarrow> addr list" where
  "this_objectPoints i w = objectPoints w"

text \<open>
  The rotation formula as the specification words it, for comparison with
  \<open>rotatePoint\<close>: with \<open>sx = sin dYaw\<close>, \<open>cx = cos dYaw\<close>, \<open>sy = sin dPitch\<close>,
  \<open>cy = cos dPitch\<close>, \<open>x' = x - centerX\<close> and \<open>y' = - y + centerY\<close>,
  \<open>x_new = x' * cx + z * sx + centerX\<close>,
  \<open>y_new = - x' * sx * sy - y' * cx + z * sx * cx + centerY\<close>,
  \<open>z_new = - x' * sx * cy + y' * sy + z * cx * cy\<close>.
\<close>

definition rotate_spec :: "real \<Rightarrow> real \<Rightarrow> real \<Rightarrow> real \<Rightarrow> skyPoint \<Rightarrow> skyPoint" where
  "rotate_spec dPitch dYaw cX cY skyPoint =
     (let sx = sin dYaw; cx = cos dYaw; sy = sin dPitch; cy = cos dPitch;
          x' = pt_x skyPoint - cX;
          y' = - pt_y skyPoint + cY;
          z = pt_z skyPoint
      in skyPoint\<lparr> pt_x := x' * cx + z * sx + cX,
                    pt_y := - x' * sx * sy - y' * cx + z * sx * cx + cY,
                    pt_z := - x' * sx * cy + y' * sy + z * cx * cy \<rparr>)"

section \<open>An example session\<close>

text \<open>
  A sphere built with default size (400 by 400, radius 180) and a click callback, from a
  catalogue of two stars joined by one line, followed by one custom object at right
  ascension 0 and declination -90, which is projected onto the viewport center with
  \<open>z = 180\<close>.
\<close>

definition options1 :: options where
  "options1 = \<lparr> opt_width = None, opt_height = None, opt_initialRadius = None,
                opt_backgroundColor = None, opt_customOnClick = True \<rparr>"

definition catalogue1 :: constellations where
  "catalogue1 = \<lparr> cat_l = [(0, 1)], cat_s = [(0, 0), (0, pi)] \<rparr>"

definition m42 :: pointData where
  "m42 = \<lparr> color = None, data_radius = None, clickData = Some ''M42'' \<rparr>"

text \<open>The instance that the constructor builds from \<open>options1\<close>.\<close>

definition sphere1 :: skySphere where
  "sphere1 = \<lparr> options = options1, containerWidth = 400, containerHeight = 400,
               radius = 180, initialRadius = 180, zoomFactor = 1, isMoving = False,
               listening = False, startX = 0, startY = 0, prevX = 0, prevY = 0,
               tapX = 0, tapY = 0 \<rparr>"

definition sky0 :: world where
  "sky0 = (case SkySphere options1 catalogue1 (world0 False) of
             Inl ew \<Rightarrow> snd ew
           | Inr iw \<Rightarrow> snd iw)"

definition sky1 :: world where
  "sky1 = snd (addCustomObject 0 (- 90) (Some m42) 0 sky0)"

text \<open>
  The same session with the custom object added without a \<^verbatim>\<open>data\<close> argument, and
  the session in which a second sphere is constructed after the first.
\<close>

definition sky2 :: world where
  "sky2 = snd (addCustomObject 0 (- 90) None 0 sky0)"

definition sky3 :: world where
  "sky3 = (case SkySphere options1 catalogue1 sky0 of
             Inl ew \<Rightarrow> snd ew
           | Inr iw \<Rightarrow> snd iw)"


text \<open>
  The session in which the custom object without data is followed by a second custom
  object, with data, at the same place: both are projected onto \<open>(200, 200)\<close> with
  \<open>z = 180\<close>.
\<close>

definition sky5 :: world where
  "sky5 = snd (addCustomObject 0 (- 90) (Some m42) 0 sky2)"


section \<open>Coordinate conversion and projection: results\<close>

text \<open>
  C9. The conversions are \<open>dec2rad dec = (dec + 90) * pi / 180\<close> and
  \<open>ra2rad ra = ra * pi / 12\<close> for every input; at the boundaries,
  \<open>dec2rad (-90) = 0\<close>, \<open>dec2rad 90 = pi\<close>, \<open>ra2rad 0 = 0\<close> and \<open>ra2rad 24 = 2 * pi\<close>.
\<close>

theorem conversions_closed_form:
  "dec2rad dec = (dec + 90) * pi / 180
   \<and> ra2rad ra = ra * pi / 12
   \<and> dec2rad (- 90) = 0 \<and> dec2rad 90 = pi
   \<and> ra2rad 0 = 0 \<and> ra2rad 24 = 2 * pi"
  by (simp add: dec2rad_def ra2rad_def)

text \<open>
  C1. For every instance (radius \<open>r\<close>, viewport center \<open>(centerX, centerY)\<close>) and angles
  \<open>ra\<close>, \<open>dec\<close> in radians, the projector returns the point with
  \<open>x = r * sin dec * cos ra + centerX\<close>, \<open>y = - r * sin dec * sin ra + centerY\<close>,
  \<open>z = r * cos dec\<close>, and the result's \<open>data\<close> is exactly the argument: present if and
  only if a data argument was supplied.
\<close>

theorem generateSkyPoint_formula:
  "pt_x (generateSkyPoint this ra dec data) = radius this * sin dec * cos ra + centerX this
   \<and> pt_y (generateSkyPoint this ra dec data) = - radius this * sin dec * sin ra + centerY this
   \<and> pt_z (generateSkyPoint this ra dec data) = radius this * cos dec
   \<and> pt_data (generateSkyPoint this ra dec data) = data
   \<and> ((pt_data (generateSkyPoint this ra dec data) = None) = (data = None))"
  by (simp add: generateSkyPoint_def centerX_def centerY_def Let_def)

section \<open>The example session, evaluated\<close>

lemma sky0_eq:
  "sky0 = \<lparr> heap = [\<lparr> pt_x = 200, pt_y = 200, pt_z = 180, pt_data = None \<rparr>,
                      \<lparr> pt_x = 200, pt_y = 200, pt_z = - 180, pt_data = None \<rparr>,
                      \<lparr> pt_x = 200, pt_y = 200, pt_z = 180, pt_data = None \<rparr>,
                      \<lparr> pt_x = 200, pt_y = 200, pt_z = - 180, pt_data = None \<rparr>],
             starLines = [\<lparr> skyPoint1 = 0, skyPoint2 = 1 \<rparr>],
             starPoints = [2, 3], objectPoints = [],
             instances = [sphere1], supportTouch = False \<rparr>"
  by (simp add: sky0_def SkySphere_def init_def or_default_def options1_def catalogue1_def
      world0_def alloc_def generateSkyPoint_def Let_def sphere1_def)

lemma sky1_eq:
  "sky1 = \<lparr> heap = [\<lparr> pt_x = 200, pt_y = 200, pt_z = 180, pt_data = None \<rparr>,
                      \<lparr> pt_x = 200, pt_y = 200, pt_z = - 180, pt_data = None \<rparr>,
                      \<lparr> pt_x = 200, pt_y = 200, pt_z = 180, pt_data = None \<rparr>,
                      \<lparr> pt_x = 200, pt_y = 200, pt_z = - 180, pt_data = None \<rparr>,
                      \<lparr> pt_x = 200, pt_y = 200, pt_z = 180, pt_data = Some m42 \<rparr>],
             starLines = [\<lparr> skyPoint1 = 0, skyPoint2 = 1 \<rparr>],
             starPoints = [2, 3], objectPoints = [4],
             instances = [sphere1], supportTouch = False \<rparr>"
  by (simp add: sky1_def sky0_eq addCustomObject_def alloc_def generateSkyPoint_def Let_def
      sphere1_def ra2rad_def dec2rad_def)

section \<open>The store under the transform engine\<close>

lemma length_transform_at [simp]: "length (transform_at f a h) = length h"
  by (simp add: transform_at_def)

lemma length_fold_transform_at [simp]: "length (fold (transform_at f) as h) = length h"
  by (induction as arbitrary: h) simp_all

lemma fold_lines_concat:
  "fold (\<lambda>starLine h. transform_at f (skyPoint2 starLine) (transform_at f (skyPoint1 starLine) h)) ls h
   = fold (transform_at f) (concat (map (\<lambda>starLine. [skyPoint1 starLine, skyPoint2 starLine]) ls)) h"
  by (induction ls arbitrary: h) simp_all

lemma heap_applyTransform:
  "heap (applyTransform f w) = fold (transform_at f) (tracked w) (heap w)"
  by (simp add: applyTransform_def tracked_def fold_lines_concat Let_def)

lemma applyTransform_frame [simp]:
  "starLines (applyTransform f w) = starLines w"
  "starPoints (applyTransform f w) = starPoints w"
  "objectPoints (applyTransform f w) = objectPoints w"
  "instances (applyTransform f w) = instances w"
  "supportTouch (applyTransform f w) = supportTouch w"
  by (simp_all add: applyTransform_def Let_def)

lemma map_transform_at_invariant:
  assumes "\<And>p. Q (f p) = Q p"
  shows "map Q (transform_at f a h) = map Q h"
proof (cases "a < length h")
  case True
  then show ?thesis
    by (simp add: transform_at_def map_update assms list_update_same_conv)
next
  case False
  then show ?thesis by (simp add: transform_at_def list_update_beyond)
qed

lemma map_fold_transform_at_invariant:
  assumes "\<And>p. Q (f p) = Q p"
  shows "map Q (fold (transform_at f) as h) = map Q h"
  by (induction as arbitrary: h) (simp_all add: map_transform_at_invariant [where Q = Q, OF assms])

lemma rotation_algebra:
  fixes s1 c1 s2 c2 x y z :: real
  assumes "s1 * s1 + c1 * c1 = 1" and "s2 * s2 + c2 * c2 = 1"
  shows "(x * c2 + z * s2)\<^sup>2 + (- x * (s1 * s2) - y * c1 + z * (s1 * c2))\<^sup>2
         + (- x * (c1 * s2) + y * s1 + z * (c1 * c2))\<^sup>2 = x\<^sup>2 + y\<^sup>2 + z\<^sup>2"
  using assms by algebra

lemma rotatePoint_norm2: "norm2 cX cY (rotatePoint dy dx cX cY p) = norm2 cX cY p"
proof -
  have a: "sin dx * sin dx + cos dx * cos dx = 1" 
    using sin_cos_squared_add [of dx] by (simp add: power2_eq_square)
  have b: "sin dy * sin dy + cos dy * cos dy = 1"
    using sin_cos_squared_add [of dy] by (simp add: power2_eq_square)
  have c: "(pt_y p - cY)\<^sup>2 = (- pt_y p + cY)\<^sup>2"
    by (simp add: power2_eq_square algebra_simps)
  show ?thesis
    unfolding norm2_def rotatePoint_def Let_def
    using rotation_algebra [OF a b, of "pt_x p - cX" "pt_z p" "- pt_y p + cY"]
    by (simp add: c)
qed


lemma rotateXY_frame [simp]:
  "starLines (rotateXY dy dx i w) = starLines w"
  "starPoints (rotateXY dy dx i w) = starPoints w"
  "objectPoints (rotateXY dy dx i w) = objectPoints w"
  "instances (rotateXY dy dx i w) = instances w"
  "supportTouch (rotateXY dy dx i w) = supportTouch w"
  by (simp_all add: rotateXY_def Let_def)

lemma tracked_cong:
  "starLines w' = starLines w \<Longrightarrow> starPoints w' = starPoints w
   \<Longrightarrow> objectPoints w' = objectPoints w \<Longrightarrow> tracked w' = tracked w"
  by (simp add: tracked_def)

lemma length_heap_applyTransform [simp]: "length (heap (applyTransform f w)) = length (heap w)"
  by (simp add: heap_applyTransform)

lemma length_heap_rotateXY [simp]: "length (heap (rotateXY dy dx i w)) = length (heap w)"
  by (simp add: rotateXY_def Let_def)

lemma rotateXY_norm2_map:
  "map (norm2 (centerX (instances w ! i)) (centerY (instances w ! i))) (heap (rotateXY dy dx i w))
   = map (norm2 (centerX (instances w ! i)) (centerY (instances w ! i))) (heap w)"
  unfolding rotateXY_def Let_def heap_applyTransform
  by (rule map_fold_transform_at_invariant) (rule rotatePoint_norm2)

lemma rotateXY_seq_instances [simp]: "instances (rotateXY_seq rs i w) = instances w"
  by (induction rs arbitrary: w) simp_all

lemma rotateXY_seq_norm2_map:
  "map (norm2 (centerX (instances w ! i)) (centerY (instances w ! i))) (heap (rotateXY_seq rs i w))
   = map (norm2 (centerX (instances w ! i)) (centerY (instances w ! i))) (heap w)"
proof (induction rs arbitrary: w)
  case Nil
  show ?case by simp
next
  case (Cons r rs)
  have "map (norm2 (centerX (instances w ! i)) (centerY (instances w ! i)))
          (heap (rotateXY_seq rs i (rotateXY (fst r) (snd r) i w)))
        = map (norm2 (centerX (instances w ! i)) (centerY (instances w ! i)))
          (heap (rotateXY (fst r) (snd r) i w))"
    using Cons.IH [of "rotateXY (fst r) (snd r) i w"] by simp
  then show ?case by (simp add: rotateXY_norm2_map)
qed

text \<open>
  C3. For every point of the store and every finite sequence of \<open>rotateXY\<close> calls on an
  instance, with arbitrary angles, the squared distance
  \<open>(x - centerX)\<^sup>2 + (y - centerY)\<^sup>2 + z\<^sup>2\<close> of the point from that instance's viewport
  center is the same after the sequence as before, over the real numbers.
\<close>

theorem rotateXY_seq_preserves_norm:
  assumes "a < length (heap w)"
  shows "norm2 (centerX (instances w ! i)) (centerY (instances w ! i)) (heap (rotateXY_seq rs i w) ! a)
         = norm2 (centerX (instances w ! i)) (centerY (instances w ! i)) (heap w ! a)"
proof -
  have len: "length (heap (rotateXY_seq rs i w)) = length (heap w)"
    using arg_cong [OF rotateXY_seq_norm2_map [of w i rs], of length] by simp
  have "map (norm2 (centerX (instances w ! i)) (centerY (instances w ! i))) (heap (rotateXY_seq rs i w)) ! a
        = map (norm2 (centerX (instances w ! i)) (centerY (instances w ! i))) (heap w) ! a"
    by (simp only: rotateXY_seq_norm2_map)
  then show ?thesis using assms len by simp
qed

theorem rotateXY_seq_preserves_norm_witness:
  "(4::nat) < length (heap sky1)
   \<and> norm2 (centerX (instances sky1 ! 0)) (centerY (instances sky1 ! 0))
        (heap (rotateXY_seq [(pi / 2, 0), (0, 1)] 0 sky1) ! 4)
     = norm2 (centerX (instances sky1 ! 0)) (centerY (instances sky1 ! 0)) (heap sky1 ! 4)"
proof -
  have h: "(4::nat) < length (heap sky1)" by (simp add: sky1_eq)
  show ?thesis
    using h rotateXY_seq_preserves_norm [OF h, of 0 "[(pi / 2, 0), (0, 1)]"] by simp
qed

section \<open>Zoom\<close>

lemma state_after_zoom [simp]: "state_after (zoom zf i w) = zoom_state zf i w"
  by (simp add: zoom_def state_after_def Let_def split: sum.splits)

section \<open>Custom objects and well-formed states\<close>

lemma nth_transform_at_other: "a \<noteq> b \<Longrightarrow> transform_at f b h ! a = h ! a"
  by (simp add: transform_at_def)

lemma nth_transform_at_same: "a < length h \<Longrightarrow> transform_at f a h ! a = f (h ! a)"
  by (simp add: transform_at_def)

lemma fold_transform_at_notin:
  "a \<notin> set as \<Longrightarrow> fold (transform_at f) as h ! a = h ! a"
  by (induction as arbitrary: h) (simp_all add: nth_transform_at_other)

lemma fold_transform_at_once:
  "distinct as \<Longrightarrow> a \<in> set as \<Longrightarrow> a < length h \<Longrightarrow> fold (transform_at f) as h ! a = f (h ! a)"
proof (induction as arbitrary: h)
  case Nil
  then show ?case by simp
next
  case (Cons b as)
  show ?case
  proof (cases "a = b")
    case True
    with Cons.prems have "a \<notin> set as" by simp
    then show ?thesis
      using True Cons.prems(3) by (simp add: fold_transform_at_notin nth_transform_at_same)
  next
    case False
    with Cons.prems have "a \<in> set as" and "distinct as" by simp_all
    then show ?thesis
      using False Cons.IH [of "transform_at f b h"] Cons.prems(3)
      by (simp add: nth_transform_at_other)
  qed
qed

lemma wf_world_tracked:
  "wf_world w \<Longrightarrow> a \<in> set (tracked w) \<Longrightarrow> a < length (heap w)"
  by (simp add: wf_world_def list_all_iff)

lemma applyTransform_tracked:
  assumes "wf_world w" and "a \<in> set (tracked w)"
  shows "heap (applyTransform f w) ! a = f (heap w ! a)"
  using assms wf_world_tracked [OF assms]
  by (simp add: heap_applyTransform fold_transform_at_once wf_world_def)


lemma tracked_applyTransform [simp]: "tracked (applyTransform f w) = tracked w"
  by (simp add: tracked_def)

lemma tracked_rotateXY [simp]: "tracked (rotateXY dy dx i w) = tracked w"
  by (simp add: tracked_def)

lemma wf_world_applyTransform [simp]: "wf_world (applyTransform f w) = wf_world w"
  by (simp add: wf_world_def)

lemma wf_world_rotateXY [simp]: "wf_world (rotateXY dy dx i w) = wf_world w"
  by (simp add: wf_world_def)

lemma heap_zoom_state:
  "heap (zoom_state zf i w)
   = heap (applyTransform (zoomPoint zf (centerX (instances w ! i)) (centerY (instances w ! i))) w)"
  by (simp add: zoom_state_def Let_def centerX_def centerY_def)

lemma zoom_state_frame [simp]:
  "starLines (zoom_state zf i w) = starLines w"
  "starPoints (zoom_state zf i w) = starPoints w"
  "objectPoints (zoom_state zf i w) = objectPoints w"
  "supportTouch (zoom_state zf i w) = supportTouch w"
  by (simp_all add: zoom_state_def Let_def)

lemma tracked_zoom_state [simp]: "tracked (zoom_state zf i w) = tracked w"
  by (simp add: tracked_def)

lemma wf_world_zoom_state [simp]: "wf_world (zoom_state zf i w) = wf_world w"
  by (simp add: wf_world_def heap_zoom_state)

lemma rotateXY_tracked:
  assumes "wf_world w" and "a \<in> set (tracked w)"
  shows "heap (rotateXY dy dx i w) ! a
         = rotatePoint dy dx (centerX (instances w ! i)) (centerY (instances w ! i)) (heap w ! a)"
  by (simp add: rotateXY_def Let_def applyTransform_tracked [OF assms])

lemma zoom_state_tracked:
  assumes "wf_world w" and "a \<in> set (tracked w)"
  shows "heap (zoom_state zf i w) ! a
         = zoomPoint zf (centerX (instances w ! i)) (centerY (instances w ! i)) (heap w ! a)"
  by (simp add: heap_zoom_state applyTransform_tracked [OF assms])

lemma addCustomObject_eq:
  "addCustomObject ra dec data i w =
     (length (heap w),
      w\<lparr> heap := heap w @ [generateSkyPoint (instances w ! i) (ra2rad ra) (dec2rad dec) data],
         objectPoints := objectPoints w @ [length (heap w)] \<rparr>)"
  by (simp add: addCustomObject_def alloc_def Let_def)

lemma wf_world_fresh: "wf_world w \<Longrightarrow> length (heap w) \<notin> set (tracked w)"
  using wf_world_tracked by blast

lemma wf_world_push_object:
  assumes "wf_world w"
  shows "wf_world (w\<lparr> heap := heap w @ [p], objectPoints := objectPoints w @ [length (heap w)] \<rparr>)"
proof -
  have fresh: "length (heap w) \<notin> set (tracked w)" by (rule wf_world_fresh [OF assms])
  have t: "tracked (w\<lparr> heap := heap w @ [p], objectPoints := objectPoints w @ [length (heap w)] \<rparr>)
           = tracked w @ [length (heap w)]"
    by (simp add: tracked_def)
  show ?thesis
    using assms fresh unfolding wf_world_def t
    by (auto simp: list_all_iff)
qed

text \<open>
  C10. In a well-formed state, \<open>addCustomObject ra dec data\<close> on an instance allocates one
  object, the projection of \<open>(ra2rad ra, dec2rad dec)\<close> under the instance's current
  radius and viewport center, carrying \<open>data\<close>; appends its address, and nothing else,
  to the end of \<open>objectPoints\<close>; and returns that same address, which no collection held
  before. Hence a later \<open>rotateXY\<close> or \<open>zoom\<close> on the instance transforms the returned
  object, once. \<open>starLines\<close>, \<open>starPoints\<close> and every instance (radius and viewport
  size included) are unchanged, as are the objects allocated earlier.
\<close>

theorem addCustomObject_appends:
  assumes "wf_world w" and "addCustomObject ra dec data i w = (a, w')"
  shows "objectPoints w' = objectPoints w @ [a]
    \<and> heap w' = heap w @ [generateSkyPoint (instances w ! i) (ra2rad ra) (dec2rad dec) data]
    \<and> heap w' ! a = generateSkyPoint (instances w ! i) (ra2rad ra) (dec2rad dec) data
    \<and> pt_data (heap w' ! a) = data
    \<and> a \<notin> set (tracked w)
    \<and> starLines w' = starLines w \<and> starPoints w' = starPoints w
    \<and> instances w' = instances w \<and> supportTouch w' = supportTouch w
    \<and> wf_world w'
    \<and> heap (rotateXY dy dx i w') ! a
        = rotatePoint dy dx (centerX (instances w' ! i)) (centerY (instances w' ! i)) (heap w' ! a)
    \<and> heap (state_after (zoom zf i w')) ! a
        = zoomPoint zf (centerX (instances w' ! i)) (centerY (instances w' ! i)) (heap w' ! a)"
proof -
  let ?p = "generateSkyPoint (instances w ! i) (ra2rad ra) (dec2rad dec) data"
  from assms(2) have a: "a = length (heap w)"
    and w': "w' = w\<lparr> heap := heap w @ [?p], objectPoints := objectPoints w @ [length (heap w)] \<rparr>"
    by (auto simp: addCustomObject_eq)
  have wf': "wf_world w'" unfolding w' by (rule wf_world_push_object [OF assms(1)])
  have tr: "a \<in> set (tracked w')" by (simp add: w' a tracked_def)
  have fresh: "a \<notin> set (tracked w)" unfolding a by (rule wf_world_fresh [OF assms(1)])
  have cell: "heap w' ! a = ?p" by (simp add: w' a)
  have d: "pt_data ?p = data" by (simp add: generateSkyPoint_def Let_def)
  have rot: "heap (rotateXY dy dx i w') ! a
        = rotatePoint dy dx (centerX (instances w' ! i)) (centerY (instances w' ! i)) (heap w' ! a)"
    by (rule rotateXY_tracked [OF wf' tr])
  have zm: "heap (state_after (zoom zf i w')) ! a
        = zoomPoint zf (centerX (instances w' ! i)) (centerY (instances w' ! i)) (heap w' ! a)"
    by (simp add: zoom_state_tracked [OF wf' tr])
  have frame: "objectPoints w' = objectPoints w @ [a]" "heap w' = heap w @ [?p]"
    "starLines w' = starLines w" "starPoints w' = starPoints w"
    "instances w' = instances w" "supportTouch w' = supportTouch w"
    by (simp_all add: w' a)
  show ?thesis
    using frame cell d fresh wf' rot zm by simp
qed

theorem addCustomObject_appends_witness:
  "wf_world sky0 \<and> addCustomObject 0 (- 90) (Some m42) 0 sky0 = (4, sky1)
   \<and> objectPoints sky1 = objectPoints sky0 @ [4]
   \<and> heap sky1 ! 4 = generateSkyPoint (instances sky0 ! 0) (ra2rad 0) (dec2rad (- 90)) (Some m42)
   \<and> starLines sky1 = starLines sky0 \<and> starPoints sky1 = starPoints sky0
   \<and> instances sky1 = instances sky0
   \<and> heap (rotateXY 1 2 0 sky1) ! 4
       = rotatePoint 1 2 (centerX (instances sky1 ! 0)) (centerY (instances sky1 ! 0)) (heap sky1 ! 4)"
proof -
  have h1: "wf_world sky0" by (simp add: sky0_eq wf_world_def tracked_def)
  have h2: "addCustomObject 0 (- 90) (Some m42) 0 sky0 = (4, sky1)"
    by (simp add: sky1_def addCustomObject_eq) (simp add: sky0_eq)
  show ?thesis
    using h1 h2 addCustomObject_appends [OF h1 h2, of 1 2 1] by blast
qed

section \<open>Well-formedness is kept by the constructor and by \<open>addCustomObject\<close>\<close>

lemma wf_world0: "wf_world (world0 touch)"
  by (simp add: wf_world_def tracked_def world0_def)

lemma wf_world_heap_grow:
  assumes "wf_world w" and "tracked w' = tracked w" and "length (heap w) \<le> length (heap w')"
  shows "wf_world w'"
proof -
  have "\<forall>b \<in> set (tracked w'). b < length (heap w')"
    using wf_world_tracked [OF assms(1)] assms(2,3) by fastforce
  moreover have "distinct (tracked w')" using assms(1,2) by (simp add: wf_world_def)
  ultimately show ?thesis by (simp add: wf_world_def list_all_iff)
qed

lemma wf_world_push_line:
  assumes "wf_world w"
  shows "wf_world (w\<lparr> heap := heap w @ [p, q],
                       starLines := starLines w @ [\<lparr> skyPoint1 = length (heap w),
                                                    skyPoint2 = Suc (length (heap w)) \<rparr>] \<rparr>)"
proof -
  have lt: "\<And>b. b \<in> set (tracked w) \<Longrightarrow> b < length (heap w)"
    using assms by (simp add: wf_world_def list_all_iff)
  have f1: "length (heap w) \<notin> set (tracked w)" and f2: "Suc (length (heap w)) \<notin> set (tracked w)"
    using lt by fastforce+
  show ?thesis
    using assms f1 f2 lt unfolding wf_world_def tracked_def list_all_iff
    by (auto simp: less_Suc_eq)
qed

lemma wf_world_push_star:
  assumes "wf_world w"
  shows "wf_world (w\<lparr> heap := heap w @ [p], starPoints := starPoints w @ [length (heap w)] \<rparr>)"
proof -
  have lt: "\<And>b. b \<in> set (tracked w) \<Longrightarrow> b < length (heap w)"
    using assms by (simp add: wf_world_def list_all_iff)
  have f1: "length (heap w) \<notin> set (tracked w)"
    using lt by fastforce
  show ?thesis
    using assms f1 lt unfolding wf_world_def tracked_def list_all_iff
    by (auto simp: less_Suc_eq)
qed

lemma wf_init_lines:
  "wf_world w \<Longrightarrow> wf_world (state_after (init_lines this stars ls w))"
proof (induction ls arbitrary: w)
  case Nil
  then show ?case by (simp add: state_after_def)
next
  case (Cons line ls)
  show ?case
  proof (cases "fst line < length stars \<and> snd line < length stars")
    case True
    let ?p = "generateSkyPoint this (fst (stars ! fst line)) (snd (stars ! fst line)) None"
    let ?q = "generateSkyPoint this (fst (stars ! snd line)) (snd (stars ! snd line)) None"
    let ?w2 = "w\<lparr> heap := heap w @ [?p, ?q],
                   starLines := starLines w @ [\<lparr> skyPoint1 = length (heap w),
                                                skyPoint2 = Suc (length (heap w)) \<rparr>] \<rparr>"
    have e: "init_lines this stars (line # ls) w = init_lines this stars ls ?w2"
      using True by (simp add: alloc_def Let_def)
    show ?thesis
      unfolding e by (rule Cons.IH [OF wf_world_push_line [OF Cons.prems]])
  next
    case False
    have "wf_world (w\<lparr> heap := heap w @ [p] \<rparr>)" for p
      by (rule wf_world_heap_grow [OF Cons.prems]) (simp_all add: tracked_def)
    then show ?thesis
      using False Cons.prems by (auto simp: alloc_def Let_def state_after_def)
  qed
qed

lemma wf_init_stars: "wf_world w \<Longrightarrow> wf_world (init_stars this stars w)"
proof (induction stars arbitrary: w)
  case Nil
  then show ?case by simp
next
  case (Cons star stars)
  have e: "init_stars this (star # stars) w
           = init_stars this stars
               (w\<lparr> heap := heap w @ [generateSkyPoint this (fst star) (snd star) None],
                   starPoints := starPoints w @ [length (heap w)] \<rparr>)"
    by (simp add: alloc_def Let_def)
  show ?case
    unfolding e by (rule Cons.IH [OF wf_world_push_star [OF Cons.prems]])
qed

lemma wf_world_instances_update [simp]: "wf_world (w\<lparr> instances := xs \<rparr>) = wf_world w"
  by (simp add: wf_world_def tracked_def)

lemma wf_SkySphere:
  assumes "wf_world w"
  shows "wf_world (case SkySphere opts cat w of Inl ew \<Rightarrow> snd ew | Inr iw \<Rightarrow> snd iw)"
proof -
  let ?sph = "\<lparr> options = opts, containerWidth = or_default (opt_width opts) 400,
      containerHeight = or_default (opt_height opts) (or_default (opt_width opts) 400),
      radius = or_default (opt_initialRadius opts)
         (min (or_default (opt_width opts) 400)
              (or_default (opt_height opts) (or_default (opt_width opts) 400)) * 0.45),
      initialRadius = or_default (opt_initialRadius opts)
         (min (or_default (opt_width opts) 400)
              (or_default (opt_height opts) (or_default (opt_width opts) 400)) * 0.45),
      zoomFactor = 1, isMoving = False, listening = False,
      startX = 0, startY = 0, prevX = 0, prevY = 0, tapX = 0, tapY = 0 \<rparr>"
  have l: "wf_world (state_after (init_lines ?sph (cat_s cat) (cat_l cat) w))"
    by (rule wf_init_lines [OF assms])
  show ?thesis
  proof (cases "init_lines ?sph (cat_s cat) (cat_l cat) w")
    case (Inl ew)
    then show ?thesis using l by (simp add: SkySphere_def init_def Let_def state_after_def)
  next
    case (Inr w1)
    then have "wf_world w1" using l by (simp add: state_after_def)
    then have "wf_world (init_stars ?sph (cat_s cat) w1)" by (rule wf_init_stars)
    then show ?thesis using Inr by (simp add: SkySphere_def init_def Let_def)
  qed
qed

lemma wf_addCustomObject: "wf_world w \<Longrightarrow> wf_world (snd (addCustomObject ra dec data i w))"
  by (simp add: addCustomObject_eq wf_world_push_object)

text \<open>
  After a gesture without displacement on an instance with a click callback,
  \<open>stopMove\<close> reports exactly what the scan over \<open>objectPoints\<close> with tolerance
  \<open>area\<close> finds at the tap position.
\<close>

lemma stopMove_tap:
  assumes "i < length (instances w)" and "listening (instances w ! i)"
    and "prevX (instances w ! i) = startX (instances w ! i)"
    and "prevY (instances w ! i) = startY (instances w ! i)"
    and "opt_customOnClick (options (instances w ! i))"
  shows "map_sum fst fst (stopMove i w)
         = hitScan (area w) (tapX (instances w ! i)) (tapY (instances w ! i)) (heap w) (objectPoints w)"
  using assms by (simp add: stopMove_def Let_def area_def split: sum.splits)

section \<open>Hit test and shared collections\<close>

lemma area_pos: "0 < area w"
  by (simp add: area_def)

lemma hitScan_find:
  "hitScan tol x y h as =
     (case find (\<lambda>b. hit tol x y (h ! b)) as of
        None \<Rightarrow> Inr NoClick
      | Some b \<Rightarrow> (case pt_data (h ! b) of
                     None \<Rightarrow> Inl TypeError
                   | Some d \<Rightarrow> Inr (Click (clickData d))))"
  by (induction as) (simp_all add: hit_def Let_def)

lemma hitScan_filter_front:
  "hitScan tol x y h as = hitScan tol x y h (filter (\<lambda>b. 0 \<le> pt_z (h ! b)) as)"
  by (induction as) (simp_all add: Let_def)

lemma hitScan_NoClick: "hitScan tol x y h as = Inr NoClick \<Longrightarrow> b \<in> set as \<Longrightarrow> \<not> hit tol x y (h ! b)"
  by (induction as) (auto simp: hit_def Let_def split: if_splits option.splits)

text \<open>
  What the loop does when the objects carry data: the first object that passes the test
  is reported, so an object exactly at the tap position with \<open>z \<ge> 0\<close> is reported
  unless an earlier object passes the test too; objects with \<open>z < 0\<close> never matter.
\<close>

lemma hit_at_tap:
  "0 < tol \<Longrightarrow> pt_x p = x \<Longrightarrow> pt_y p = y \<Longrightarrow> 0 \<le> pt_z p \<Longrightarrow> hit tol x y p"
  by (simp add: hit_def)

lemma hitScan_reports_first:
  assumes "list_all (\<lambda>b. \<not> hit tol x y (h ! b)) pre"
    and "hit tol x y (h ! a)" and "pt_data (h ! a) = Some d"
  shows "hitScan tol x y h (pre @ a # rest) = Inr (Click (clickData d))"
  using assms by (induction pre) (auto simp: hit_def Let_def)

lemma hitScan_with_data:
  assumes "list_all (\<lambda>b. pt_data (h ! b) \<noteq> None) as"
    and "a \<in> set as" and "hit tol x y (h ! a)"
  shows "\<exists>c. hitScan tol x y h as = Inr (Click c)"
  using assms by (induction as) (auto simp: hit_def Let_def)

lemma sky2_eq:
  "sky2 = \<lparr> heap = [\<lparr> pt_x = 200, pt_y = 200, pt_z = 180, pt_data = None \<rparr>,
                      \<lparr> pt_x = 200, pt_y = 200, pt_z = - 180, pt_data = None \<rparr>,
                      \<lparr> pt_x = 200, pt_y = 200, pt_z = 180, pt_data = None \<rparr>,
                      \<lparr> pt_x = 200, pt_y = 200, pt_z = - 180, pt_data = None \<rparr>,
                      \<lparr> pt_x = 200, pt_y = 200, pt_z = 180, pt_data = None \<rparr>],
             starLines = [\<lparr> skyPoint1 = 0, skyPoint2 = 1 \<rparr>],
             starPoints = [2, 3], objectPoints = [4],
             instances = [sphere1], supportTouch = False \<rparr>"
  by (simp add: sky2_def sky0_eq addCustomObject_def alloc_def generateSkyPoint_def Let_def
      sphere1_def ra2rad_def dec2rad_def)

text \<open>
  C8. The source does match an object without data: a tap on it reads
  \<^verbatim>\<open>skyPoint.data.clickData\<close> and throws, and so does the redraw at the end of
  \<open>zoom\<close>. Here the object is added by \<open>addCustomObject 0 (- 90)\<close> with no data
  argument, and the tap is at the object's position \<open>(200, 200)\<close> on the canvas.
\<close>

theorem stopMove_payloadless_throws:
  "pt_data (heap sky2 ! 4) = None \<and> this_objectPoints 0 sky2 = [4]
   \<and> thrown (stopMove 0 (startMove 210 220 10 20 0 sky2)) = Some TypeError
   \<and> thrown (zoom 1 0 sky2) = Some TypeError"
  by (simp add: sky2_eq this_objectPoints_def thrown_def stopMove_def startMove_def sphere1_def
      options1_def area_def Let_def zoom_def zoom_state_def drawSky_def applyTransform_def
      transform_at_def zoomPoint_def)

lemma sky5_eq:
  "sky5 = \<lparr> heap = [\<lparr> pt_x = 200, pt_y = 200, pt_z = 180, pt_data = None \<rparr>,
                      \<lparr> pt_x = 200, pt_y = 200, pt_z = - 180, pt_data = None \<rparr>,
                      \<lparr> pt_x = 200, pt_y = 200, pt_z = 180, pt_data = None \<rparr>,
                      \<lparr> pt_x = 200, pt_y = 200, pt_z = - 180, pt_data = None \<rparr>,
                      \<lparr> pt_x = 200, pt_y = 200, pt_z = 180, pt_data = None \<rparr>,
                      \<lparr> pt_x = 200, pt_y = 200, pt_z = 180, pt_data = Some m42 \<rparr>],
             starLines = [\<lparr> skyPoint1 = 0, skyPoint2 = 1 \<rparr>],
             starPoints = [2, 3], objectPoints = [4, 5],
             instances = [sphere1], supportTouch = False \<rparr>"
  by (simp add: sky5_def sky2_eq addCustomObject_def alloc_def generateSkyPoint_def Let_def
      sphere1_def ra2rad_def dec2rad_def)

text \<open>
  C5. The source does not find a custom object that carries data and is projected exactly
  at the tap position with \<open>z > 0\<close> when an object without data comes before it in the
  collection and passes the test: the scan stops at the earlier object, reading
  \<^verbatim>\<open>skyPoint.data.clickData\<close> throws, and \<^verbatim>\<open>customOnClick\<close> is never called. Here
  the tap is at \<open>(200, 200)\<close> on the canvas and the tolerance is the source's \<open>area = 6\<close>.
\<close>

theorem stopMove_object_at_tap_not_found:
  "this_objectPoints 0 sky5 = [4, 5]
   \<and> pt_data (heap sky5 ! 4) = None
   \<and> pt_x (heap sky5 ! 5) = 200 \<and> pt_y (heap sky5 ! 5) = 200 \<and> 0 < pt_z (heap sky5 ! 5)
   \<and> pt_data (heap sky5 ! 5) = Some m42
   \<and> tapX (instances (startMove 210 220 10 20 0 sky5) ! 0) = 200
   \<and> tapY (instances (startMove 210 220 10 20 0 sky5) ! 0) = 200
   \<and> area sky5 = 6
   \<and> thrown (stopMove 0 (startMove 210 220 10 20 0 sky5)) = Some TypeError"
  by (simp add: sky5_eq this_objectPoints_def thrown_def stopMove_def startMove_def sphere1_def
      options1_def area_def Let_def)

lemma sky3_eq:
  "sky3 = \<lparr> heap = [\<lparr> pt_x = 200, pt_y = 200, pt_z = 180, pt_data = None \<rparr>,
                      \<lparr> pt_x = 200, pt_y = 200, pt_z = - 180, pt_data = None \<rparr>,
                      \<lparr> pt_x = 200, pt_y = 200, pt_z = 180, pt_data = None \<rparr>,
                      \<lparr> pt_x = 200, pt_y = 200, pt_z = - 180, pt_data = None \<rparr>,
                      \<lparr> pt_x = 200, pt_y = 200, pt_z = 180, pt_data = None \<rparr>,
                      \<lparr> pt_x = 200, pt_y = 200, pt_z = - 180, pt_data = None \<rparr>,
                      \<lparr> pt_x = 200, pt_y = 200, pt_z = 180, pt_data = None \<rparr>,
                      \<lparr> pt_x = 200, pt_y = 200, pt_z = - 180, pt_data = None \<rparr>],
             starLines = [\<lparr> skyPoint1 = 0, skyPoint2 = 1 \<rparr>, \<lparr> skyPoint1 = 4, skyPoint2 = 5 \<rparr>],
             starPoints = [2, 3, 6, 7], objectPoints = [],
             instances = [sphere1, sphere1], supportTouch = False \<rparr>"
  by (simp add: sky3_def sky0_eq SkySphere_def init_def or_default_def options1_def catalogue1_def
      alloc_def generateSkyPoint_def Let_def sphere1_def)

text \<open>
  C7. The source does not give each instance its own collections: after a second sphere is
  constructed, the first sphere's \<open>starPoints\<close> and \<open>starLines\<close> hold the second
  sphere's points as well, and an object added through the second sphere appears in the
  first sphere's \<open>objectPoints\<close>.
\<close>

theorem collections_shared_between_instances:
  "SkySphere options1 catalogue1 (world0 False) = Inr (0, sky0)
   \<and> SkySphere options1 catalogue1 sky0 = Inr (1, sky3)
   \<and> this_starPoints 0 sky0 = [2, 3] \<and> this_starPoints 0 sky3 = [2, 3, 6, 7]
   \<and> length (this_starLines 0 sky0) = 1 \<and> length (this_starLines 0 sky3) = 2
   \<and> this_objectPoints 0 sky3 = []
   \<and> this_objectPoints 0 (snd (addCustomObject 0 0 None 1 sky3)) = [8]"
  by (simp add: sky0_eq sky3_eq this_starPoints_def this_starLines_def this_objectPoints_def
      SkySphere_def init_def or_default_def options1_def catalogue1_def world0_def
      alloc_def generateSkyPoint_def Let_def sphere1_def addCustomObject_def)

section \<open>The rotation formula\<close>

lemma rotatePoint_coords:
  "pt_x (rotatePoint dPitch dYaw cX cY p)
     = (pt_x p - cX) * cos dPitch + pt_z p * sin dPitch + cX"
  "pt_y (rotatePoint dPitch dYaw cX cY p)
     = - (pt_x p - cX) * sin dYaw * sin dPitch - (- pt_y p + cY) * cos dYaw
       + pt_z p * sin dYaw * cos dPitch + cY"
  "pt_z (rotatePoint dPitch dYaw cX cY p)
     = - (pt_x p - cX) * cos dYaw * sin dPitch + (- pt_y p + cY) * sin dYaw
       + pt_z p * cos dYaw * cos dPitch"
  "pt_data (rotatePoint dPitch dYaw cX cY p) = pt_data p"
  by (simp_all add: rotatePoint_def Let_def algebra_simps)

text \<open>
  C2, as amended. For every object held by a collection of a well-formed state and every
  call \<open>rotateXY dPitch dYaw\<close>, with \<open>sx = sin dYaw\<close>, \<open>cx = cos dYaw\<close>,
  \<open>sy = sin dPitch\<close>, \<open>cy = cos dPitch\<close>, \<open>x' = x - centerX\<close> and
  \<open>y' = - y + centerY\<close>, the new coordinates are
  \<open>x_new = x' * cy + z * sy + centerX\<close>,
  \<open>y_new = - x' * sx * sy - y' * cx + z * sx * cy + centerY\<close> and
  \<open>z_new = - x' * cx * sy + y' * sx + z * cx * cy\<close>; the data is untouched.
\<close>

theorem rotateXY_formula:
  assumes "wf_world w" and "a \<in> set (tracked w)"
  shows "pt_x (heap (rotateXY dPitch dYaw i w) ! a)
           = (pt_x (heap w ! a) - centerX (instances w ! i)) * cos dPitch
             + pt_z (heap w ! a) * sin dPitch + centerX (instances w ! i)
    \<and> pt_y (heap (rotateXY dPitch dYaw i w) ! a)
           = - (pt_x (heap w ! a) - centerX (instances w ! i)) * sin dYaw * sin dPitch
             - (- pt_y (heap w ! a) + centerY (instances w ! i)) * cos dYaw
             + pt_z (heap w ! a) * sin dYaw * cos dPitch + centerY (instances w ! i)
    \<and> pt_z (heap (rotateXY dPitch dYaw i w) ! a)
           = - (pt_x (heap w ! a) - centerX (instances w ! i)) * cos dYaw * sin dPitch
             + (- pt_y (heap w ! a) + centerY (instances w ! i)) * sin dYaw
             + pt_z (heap w ! a) * cos dYaw * cos dPitch
    \<and> pt_data (heap (rotateXY dPitch dYaw i w) ! a) = pt_data (heap w ! a)"
  by (simp only: rotateXY_tracked [OF assms] rotatePoint_coords)

lemma wf_world_sky1: "wf_world sky1"
  by (simp add: sky1_eq wf_world_def tracked_def)

theorem rotateXY_formula_witness:
  "wf_world sky1 \<and> 4 \<in> set (tracked sky1)
   \<and> pt_x (heap (rotateXY (pi / 2) 0 0 sky1) ! 4) = 380
   \<and> pt_y (heap (rotateXY (pi / 2) 0 0 sky1) ! 4) = 200
   \<and> pt_z (heap (rotateXY (pi / 2) 0 0 sky1) ! 4) = 0"
proof -
  have h1: "wf_world sky1" by (simp add: sky1_eq wf_world_def tracked_def)
  have h2: "4 \<in> set (tracked sky1)" by (simp add: sky1_eq tracked_def)
  have v: "heap sky1 ! 4 = \<lparr> pt_x = 200, pt_y = 200, pt_z = 180, pt_data = Some m42 \<rparr>"
    "centerX (instances sky1 ! 0) = 200" "centerY (instances sky1 ! 0) = 200"
    by (simp_all add: sky1_eq sphere1_def centerX_def centerY_def)
  show ?thesis
    using h1 h2 rotateXY_formula [OF h1 h2, of "pi / 2" 0 0] by (simp add: v)
qed

text \<open>
  C2 as stated fails: for the custom object of the example session, at the viewport center
  with \<open>z = 180\<close>, the call \<open>rotateXY (pi / 2) 0\<close> moves \<open>x\<close> to \<open>380\<close>, where
  the formula of the claim gives \<open>200\<close>.
\<close>

theorem rotateXY_spec_formula_counterexample:
  "pt_x (heap (rotateXY (pi / 2) 0 0 sky1) ! 4) = 380
   \<and> pt_x (rotate_spec (pi / 2) 0 (centerX (instances sky1 ! 0)) (centerY (instances sky1 ! 0))
            (heap sky1 ! 4)) = 200
   \<and> heap (rotateXY (pi / 2) 0 0 sky1) ! 4
       \<noteq> rotate_spec (pi / 2) 0 (centerX (instances sky1 ! 0)) (centerY (instances sky1 ! 0))
            (heap sky1 ! 4)"
proof -
  have v: "heap sky1 ! 4 = \<lparr> pt_x = 200, pt_y = 200, pt_z = 180, pt_data = Some m42 \<rparr>"
    "centerX (instances sky1 ! 0) = 200" "centerY (instances sky1 ! 0) = 200"
    by (simp_all add: sky1_eq sphere1_def centerX_def centerY_def)
  have "heap (rotateXY (pi / 2) 0 0 sky1) ! 4
        = rotatePoint (pi / 2) 0 200 200 \<lparr> pt_x = 200, pt_y = 200, pt_z = 180, pt_data = Some m42 \<rparr>"
    using rotateXY_tracked [of sky1 4 "pi / 2" 0 0]
    by (simp add: v) (simp add: sky1_eq wf_world_def tracked_def)
  then have c: "pt_x (heap (rotateXY (pi / 2) 0 0 sky1) ! 4) = 380"
    by (simp add: rotatePoint_def Let_def)
  have s: "pt_x (rotate_spec (pi / 2) 0 (centerX (instances sky1 ! 0))
                  (centerY (instances sky1 ! 0)) (heap sky1 ! 4)) = 200"
    by (simp add: v rotate_spec_def Let_def)
  have "heap (rotateXY (pi / 2) 0 0 sky1) ! 4
       \<noteq> rotate_spec (pi / 2) 0 (centerX (instances sky1 ! 0)) (centerY (instances sky1 ! 0))
            (heap sky1 ! 4)"
  proof
    assume "heap (rotateXY (pi / 2) 0 0 sky1) ! 4
       = rotate_spec (pi / 2) 0 (centerX (instances sky1 ! 0)) (centerY (instances sky1 ! 0))
            (heap sky1 ! 4)"
    then have "pt_x (heap (rotateXY (pi / 2) 0 0 sky1) ! 4)
       = pt_x (rotate_spec (pi / 2) 0 (centerX (instances sky1 ! 0))
                 (centerY (instances sky1 ! 0)) (heap sky1 ! 4))"
      by (rule arg_cong)
    then show False unfolding c s by simp
  qed
  with c s show ?thesis by blast
qed

section \<open>Centering animation\<close>





























end
